theory Spec2Isabelle
  imports Main "HOL-Library.Char_ord" "HOL-Library.List_Lexorder"
begin

section \<open>Strings\<close>

text \<open>
  Python strings are modelled as \<^typ>\<open>string\<close>. \<open>str.lower\<close> and \<open>str.upper\<close> act on
  the ASCII letters; every other character is carried unchanged. None of the literals the
  program compares a lowered or uppered string with contains a letter that a character
  outside ASCII is mapped to.
\<close>

definition upper_letters :: string where
  "upper_letters = ''ABCDEFGHIJKLMNOPQRSTUVWXYZ''"

definition lower_letters :: string where
  "lower_letters = ''abcdefghijklmnopqrstuvwxyz''"

definition lower_char :: "char \<Rightarrow> char" where
  "lower_char c = (case map_of (zip upper_letters lower_letters) c of Some d \<Rightarrow> d | None \<Rightarrow> c)"

definition upper_char :: "char \<Rightarrow> char" where
  "upper_char c = (case map_of (zip lower_letters upper_letters) c of Some d \<Rightarrow> d | None \<Rightarrow> c)"

definition str_lower :: "string \<Rightarrow> string" where
  "str_lower s = map lower_char s"

definition str_upper :: "string \<Rightarrow> string" where
  "str_upper s = map upper_char s"

text \<open>\<open>s.lstrip(".")\<close>\<close>

definition lstrip_dot :: "string \<Rightarrow> string" where
  "lstrip_dot s = dropWhile (\<lambda>c. c = CHR ''.'') s"

text \<open>\<open>s.rfind(c)\<close>: the last index of \<open>c\<close>, \<open>None\<close> for Python's \<open>-1\<close>.\<close>

definition rfind :: "char \<Rightarrow> string \<Rightarrow> nat option" where
  "rfind c s =
     (if c \<in> set s then Some (length s - 1 - length (takeWhile (\<lambda>x. x \<noteq> c) (rev s)))
      else None)"

text \<open>\<open>s.split("/")\<close>\<close>

fun split_sep :: "string \<Rightarrow> string list" where
  "split_sep [] = [[]]"
| "split_sep (c # cs) =
     (if c = CHR ''/'' then [] # split_sep cs
      else (case split_sep cs of [] \<Rightarrow> [[c]] | x # xs \<Rightarrow> (c # x) # xs))"

text \<open>\<open>"/".join(xs)\<close>\<close>

fun join_sep :: "string list \<Rightarrow> string" where
  "join_sep [] = []"
| "join_sep [x] = x"
| "join_sep (x # y # ys) = x @ ''/'' @ join_sep (y # ys)"

text \<open>The \<open>repr\<close> of a string without quotes or escapes in it.\<close>

definition quoted :: "string \<Rightarrow> string" where
  "quoted s = CHR 0x27 # s @ [CHR 0x27]"

section \<open>Exceptions\<close>

text \<open>
  The subclasses of \<open>Exception\<close> that the program and the libraries it calls raise, each
  with its message; \<open>str(e)\<close> is the message. \<open>LibraryError\<close> stands for the exceptions of
  Pillow, OpenCV and NumPy themselves (\<open>UnidentifiedImageError\<close>, \<open>cv2.error\<close>, ...).
\<close>

datatype exn =
    ValueError string
  | RuntimeError string
  | NameError string
  | TypeError string
  | FileNotFoundError string
  | FileExistsError string
  | NotADirectoryError string
  | IsADirectoryError string
  | LibraryError string

fun str_exn :: "exn \<Rightarrow> string" where
  "str_exn (ValueError m) = m"
| "str_exn (RuntimeError m) = m"
| "str_exn (NameError m) = m"
| "str_exn (TypeError m) = m"
| "str_exn (FileNotFoundError m) = m"
| "str_exn (FileExistsError m) = m"
| "str_exn (NotADirectoryError m) = m"
| "str_exn (IsADirectoryError m) = m"
| "str_exn (LibraryError m) = m"

section \<open>Paths (\<open>pathlib.Path\<close>, POSIX flavour)\<close>

text \<open>
  A path is its anchor (\<open>""\<close>, \<open>"/"\<close> or \<open>"//"\<close>) and its components. The constructor
  drops empty components and \<open>"."\<close>, as \<open>pathlib\<close> does, and keeps \<open>".."\<close>.
\<close>

record path =
  anchor :: string
  names :: "string list"

definition Path :: "string \<Rightarrow> path" where
  "Path s =
     \<lparr> anchor =
         (let k = length (takeWhile (\<lambda>c. c = CHR ''/'') s)
          in if k = 0 then [] else if k = 2 then ''//'' else ''/''),
       names = filter (\<lambda>n. n \<noteq> [] \<and> n \<noteq> ''.'') (split_sep s) \<rparr>"

text \<open>\<open>p.parts\<close>, which is also what two paths are compared by.\<close>

definition parts :: "path \<Rightarrow> string list" where
  "parts p = (if anchor p = [] then [] else [anchor p]) @ names p"

text \<open>\<open>str(p)\<close>\<close>

definition str_path :: "path \<Rightarrow> string" where
  "str_path p =
     (if anchor p = [] \<and> names p = [] then ''.'' else anchor p @ join_sep (names p))"

text \<open>\<open>p.name\<close>\<close>

definition path_name :: "path \<Rightarrow> string" where
  "path_name p = (if names p = [] then [] else last (names p))"

text \<open>\<open>p.suffix\<close>: from the last dot of the name, unless that dot is first or last.\<close>

definition path_suffix :: "path \<Rightarrow> string" where
  "path_suffix p =
     (let name = path_name p
      in case rfind CHR ''.'' name of
           None \<Rightarrow> []
         | Some i \<Rightarrow> if 0 < i \<and> i < length name - 1 then drop i name else [])"

text \<open>\<open>p.stem\<close>\<close>

definition path_stem :: "path \<Rightarrow> string" where
  "path_stem p =
     (let name = path_name p
      in case rfind CHR ''.'' name of
           None \<Rightarrow> name
         | Some i \<Rightarrow> if 0 < i \<and> i < length name - 1 then take i name else name)"

text \<open>\<open>p.parent\<close>: a path without components is its own parent.\<close>

definition path_parent :: "path \<Rightarrow> path" where
  "path_parent p = p\<lparr>names := butlast (names p)\<rparr>"

text \<open>
  \<open>p.with_name(n)\<close> raises \<open>ValueError\<close> when \<open>p\<close> has no name, and when \<open>n\<close> is empty,
  is \<open>"."\<close> or holds a separator.
\<close>

definition with_name :: "path \<Rightarrow> string \<Rightarrow> exn + path" where
  "with_name p n =
     (if path_name p = [] then Inl (ValueError (quoted (str_path p) @ '' has an empty name''))
      else if n = [] \<or> CHR ''/'' \<in> set n \<or> n = ''.'' then
        Inl (ValueError (''Invalid name '' @ quoted n))
      else Inr (p\<lparr>names := butlast (names p) @ [n]\<rparr>))"

text \<open>\<open>p / s\<close>: an absolute right operand replaces the left one.\<close>

definition joinpath :: "path \<Rightarrow> string \<Rightarrow> path" where
  "joinpath p s =
     (let q = Path s
      in if anchor q \<noteq> [] then q else p\<lparr>names := names p @ names q\<rparr>)"

text \<open>
  \<open>sorted(ps)\<close>: paths are ordered by their parts, a list of strings ordered
  lexicographically, strings by code point; the sort is stable.
\<close>

definition sorted_paths :: "path list \<Rightarrow> path list" where
  "sorted_paths ps = sort_key parts ps"

section \<open>The file system\<close>

text \<open>
  The entries of the file system in the order the operating system lists them: regular
  files with their bytes, and directories. There are no symbolic links. A path without
  components (the current directory, the root) is always a directory.
\<close>

datatype node = File string | Dir

type_synonym filesystem = "(path \<times> node) list"

definition lookup :: "filesystem \<Rightarrow> path \<Rightarrow> node option" where
  "lookup fsys p = (if names p = [] then Some Dir else map_of fsys p)"

text \<open>\<open>p.exists()\<close>, \<open>p.is_file()\<close>, \<open>p.is_dir()\<close>\<close>

definition exists_path :: "filesystem \<Rightarrow> path \<Rightarrow> bool" where
  "exists_path fsys p = (lookup fsys p \<noteq> None)"

definition is_file :: "filesystem \<Rightarrow> path \<Rightarrow> bool" where
  "is_file fsys p = (case lookup fsys p of Some (File b) \<Rightarrow> True | _ \<Rightarrow> False)"

definition is_dir :: "filesystem \<Rightarrow> path \<Rightarrow> bool" where
  "is_dir fsys p = (lookup fsys p = Some Dir)"

text \<open>\<open>d.iterdir()\<close> on a directory: its direct entries, each once, in listing order.\<close>

definition iterdir :: "filesystem \<Rightarrow> path \<Rightarrow> path list" where
  "iterdir fsys d =
     remdups (filter (\<lambda>p. names p \<noteq> [] \<and> path_parent p = d) (map fst fsys))"

text \<open>Replacing or adding the entry of a path.\<close>

fun put_node :: "path \<Rightarrow> node \<Rightarrow> filesystem \<Rightarrow> filesystem" where
  "put_node p n [] = [(p, n)]"
| "put_node p n ((q, m) # rest) =
     (if q = p then (p, n) # rest else (q, m) # put_node p n rest)"

text \<open>\<open>os.mkdir(p)\<close>\<close>

definition os_mkdir :: "filesystem \<Rightarrow> path \<Rightarrow> exn + filesystem" where
  "os_mkdir fsys p =
     (if exists_path fsys p then
        Inl (FileExistsError (''[Errno 17] File exists: '' @ quoted (str_path p)))
      else case lookup fsys (path_parent p) of
             None \<Rightarrow>
               Inl (FileNotFoundError
                 (''[Errno 2] No such file or directory: '' @ quoted (str_path p)))
           | Some (File b) \<Rightarrow>
               Inl (NotADirectoryError (''[Errno 20] Not a directory: '' @ quoted (str_path p)))
           | Some Dir \<Rightarrow> Inr (put_node p Dir fsys))"

text \<open>
  \<open>p.mkdir(parents=False, exist_ok=True)\<close>: an \<open>OSError\<close> other than
  \<open>FileNotFoundError\<close> is swallowed when \<open>p\<close> is a directory.
\<close>

definition mkdir_exist_ok :: "filesystem \<Rightarrow> path \<Rightarrow> exn + filesystem" where
  "mkdir_exist_ok fsys p =
     (case os_mkdir fsys p of
        Inr fsys' \<Rightarrow> Inr fsys'
      | Inl (FileNotFoundError m) \<Rightarrow> Inl (FileNotFoundError m)
      | Inl e \<Rightarrow> if is_dir fsys p then Inr fsys else Inl e)"

text \<open>
  \<open>p.mkdir(parents=True, exist_ok=True)\<close>: on \<open>FileNotFoundError\<close> the parent is made
  first, unless the path is its own parent.
\<close>

function mkdir_parents :: "filesystem \<Rightarrow> path \<Rightarrow> exn + filesystem" where
  "mkdir_parents fsys p =
     (case os_mkdir fsys p of
        Inr fsys' \<Rightarrow> Inr fsys'
      | Inl (FileNotFoundError m) \<Rightarrow>
          (if path_parent p = p then Inl (FileNotFoundError m)
           else (case mkdir_parents fsys (path_parent p) of
                   Inl e \<Rightarrow> Inl e
                 | Inr fsys' \<Rightarrow> mkdir_exist_ok fsys' p))
      | Inl e \<Rightarrow> if is_dir fsys p then Inr fsys else Inl e)"
  by pat_completeness auto
termination
proof (relation "measure (\<lambda>(fsys, p). length (names p))")
  show "wf (measure (\<lambda>(fsys, p). length (names p)))" by simp
next
  fix fsys :: filesystem and p :: path and a :: exn and m :: string
  assume "path_parent p \<noteq> p"
  then have "names p \<noteq> []"
    by (auto simp: path_parent_def)
  then show "((fsys, path_parent p), (fsys, p)) \<in> measure (\<lambda>(fsys, p). length (names p))"
    by (simp add: path_parent_def)
qed

text \<open>
  Opening a path for reading all of it (\<open>open(p, "rb")\<close>, \<open>np.fromfile\<close>) and for
  writing (\<open>open(p, "wb")\<close>, \<open>ndarray.tofile\<close>).
\<close>

definition read_bytes :: "filesystem \<Rightarrow> path \<Rightarrow> exn + string" where
  "read_bytes fsys p =
     (case lookup fsys p of
        None \<Rightarrow>
          Inl (FileNotFoundError (''[Errno 2] No such file or directory: '' @ quoted (str_path p)))
      | Some Dir \<Rightarrow> Inl (IsADirectoryError (''[Errno 21] Is a directory: '' @ quoted (str_path p)))
      | Some (File b) \<Rightarrow> Inr b)"

definition write_bytes :: "filesystem \<Rightarrow> path \<Rightarrow> string \<Rightarrow> exn + filesystem" where
  "write_bytes fsys p b =
     (case lookup fsys p of
        Some Dir \<Rightarrow> Inl (IsADirectoryError (''[Errno 21] Is a directory: '' @ quoted (str_path p)))
      | Some (File old) \<Rightarrow> Inr (put_node p (File b) fsys)
      | None \<Rightarrow>
          (case lookup fsys (path_parent p) of
             Some Dir \<Rightarrow> Inr (put_node p (File b) fsys)
           | Some (File x) \<Rightarrow>
               Inl (NotADirectoryError (''[Errno 20] Not a directory: '' @ quoted (str_path p)))
           | None \<Rightarrow>
               Inl (FileNotFoundError
                 (''[Errno 2] No such file or directory: '' @ quoted (str_path p)))))"

declare mkdir_parents.simps [simp del]

section \<open>Images\<close>

text \<open>
  The pixel store of a decoded image, as Pillow's core image and an OpenCV matrix hold
  it: \<open>ysize\<close> rows of \<open>xsize\<close> pixels, row \<open>y\<close> at \<open>rows ! y\<close>.
\<close>

record 'px core =
  xsize :: nat
  ysize :: nat
  rows :: "'px list list"

definition wf_core :: "'px core \<Rightarrow> bool" where
  "wf_core c = (length (rows c) = ysize c \<and> list_all (\<lambda>r. length r = xsize c) (rows c))"

text \<open>A pixel store of the given size whose pixel at column \<open>x\<close> of row \<open>y\<close> is \<open>f x y\<close>.\<close>

definition new_core :: "nat \<Rightarrow> nat \<Rightarrow> (nat \<Rightarrow> nat \<Rightarrow> 'px) \<Rightarrow> 'px core" where
  "new_core w h f =
     \<lparr> xsize = w, ysize = h, rows = map (\<lambda>y. map (\<lambda>x. f x y) [0..<w]) [0..<h] \<rparr>"

definition pixel :: "'px core \<Rightarrow> nat \<Rightarrow> nat \<Rightarrow> 'px" where
  "pixel c x y = rows c ! y ! x"

text \<open>
  The three transforms, as both libraries compute them: each output pixel is copied from
  the mirrored position of the input.
\<close>

definition flip_left_right :: "'px core \<Rightarrow> 'px core" where
  "flip_left_right c =
     new_core (xsize c) (ysize c) (\<lambda>x y. pixel c (xsize c - 1 - x) y)"

definition flip_top_bottom :: "'px core \<Rightarrow> 'px core" where
  "flip_top_bottom c =
     new_core (xsize c) (ysize c) (\<lambda>x y. pixel c x (ysize c - 1 - y))"

definition rotate_180 :: "'px core \<Rightarrow> 'px core" where
  "rotate_180 c =
     new_core (xsize c) (ysize c) (\<lambda>x y. pixel c (xsize c - 1 - x) (ysize c - 1 - y))"

text \<open>
  A Pillow image handle: the format tag of the file it was opened from, the \<open>info\<close>
  dictionary (where the ICC profile and the EXIF block are kept) and the pixel store.
\<close>

record 'px image =
  format :: "string option"
  info :: "string \<rightharpoonup> string"
  im :: "'px core"

datatype transpose_method = FLIP_LEFT_RIGHT | FLIP_TOP_BOTTOM | ROTATE_180

text \<open>
  \<open>img.transpose(method)\<close> returns a new image: the transformed pixels, a copy of
  \<open>info\<close>, and no format tag (only an image read from a file has one).
\<close>

fun transpose_image :: "'px image \<Rightarrow> transpose_method \<Rightarrow> 'px image" where
  "transpose_image img FLIP_LEFT_RIGHT =
     \<lparr> format = None, info = info img, im = flip_left_right (im img) \<rparr>"
| "transpose_image img FLIP_TOP_BOTTOM =
     \<lparr> format = None, info = info img, im = flip_top_bottom (im img) \<rparr>"
| "transpose_image img ROTATE_180 =
     \<lparr> format = None, info = info img, im = rotate_180 (im img) \<rparr>"

text \<open>
  \<open>cv2.flip(img, code)\<close>: code 0 flips around the x axis, a positive code around the
  y axis, a negative code around both.
\<close>

definition cv2_flip :: "'px core \<Rightarrow> int \<Rightarrow> 'px core" where
  "cv2_flip c code =
     (if code = 0 then flip_top_bottom c
      else if 0 < code then flip_left_right c
      else rotate_180 c)"

section \<open>The libraries' codecs\<close>

text \<open>
  What \<open>img.save\<close> is called with: the keyword arguments the program may set.
\<close>

record save_kwargs =
  kw_format :: "string option"
  kw_quality :: "int option"
  kw_subsampling :: "int option"
  kw_icc_profile :: "string option"
  kw_exif :: "string option"

text \<open>
  The decoders and encoders are the libraries' own and are parameters of the model:
  \<^item> \<open>pil_decode\<close>: \<open>Image.open\<close> and the loading of the pixels, on the bytes of a file;
  \<^item> \<open>pil_save\<close>: \<open>img.save(path, **kwargs)\<close>, which encodes and writes, and may leave
    the file system changed when it raises;
  \<^item> \<open>cv2_imdecode\<close>: \<open>None\<close> for bytes that are no image;
  \<^item> \<open>cv2_imencode\<close>: the success flag and the encoded buffer, for an extension.
\<close>

record 'px lib =
  pil_decode :: "string \<Rightarrow> exn + 'px image"
  pil_save :: "'px image \<Rightarrow> path \<Rightarrow> save_kwargs \<Rightarrow> filesystem \<Rightarrow> exn option \<times> filesystem"
  cv2_imdecode :: "string \<Rightarrow> exn + 'px core option"
  cv2_imencode :: "string \<Rightarrow> 'px core \<Rightarrow> exn + bool \<times> string"

text \<open>\<open>Image.open(p)\<close>\<close>

definition Image_open :: "'px lib \<Rightarrow> filesystem \<Rightarrow> path \<Rightarrow> exn + 'px image" where
  "Image_open L fsys p =
     (case read_bytes fsys p of Inl e \<Rightarrow> Inl e | Inr b \<Rightarrow> pil_decode L b)"

section \<open>The program\<close>

text \<open>
  The state of a run: the file system and what has been printed, in order, each line
  with its stream.
\<close>

datatype stream = Stdout | Stderr

record world =
  files :: filesystem
  console :: "(stream \<times> string) list"

definition print :: "stream \<Rightarrow> string \<Rightarrow> world \<Rightarrow> world" where
  "print st line w = w\<lparr>console := console w @ [(st, line)]\<rparr>"

definition SUPPORTED_EXTS :: "string set" where
  "SUPPORTED_EXTS = {''.jpg'', ''.jpeg'', ''.png'', ''.bmp'', ''.gif'', ''.tiff'', ''.webp''}"

text \<open>\<open>flip_pillow\<close>\<close>

definition flip_pillow :: "'px image \<Rightarrow> string \<Rightarrow> exn + 'px image" where
  "flip_pillow img mode =
     (let mode = str_lower mode
      in if mode = ''horizontal'' then Inr (transpose_image img FLIP_LEFT_RIGHT)
         else if mode = ''vertical'' then Inr (transpose_image img FLIP_TOP_BOTTOM)
         else if mode = ''both'' then Inr (transpose_image img ROTATE_180)
         else Inl (ValueError ''Unknown mode. Choose from horizontal|vertical|both''))"

text \<open>
  The names bound at module level once the module is imported: the imports, the two
  constants and the functions. \<open>cv2\<close> is bound only when its import succeeded.
\<close>

definition module_globals :: "bool \<Rightarrow> string list" where
  "module_globals cv2_available =
     [''argparse'', ''Path'', ''Image'', ''ExifTags'', ''sys'']
     @ (if cv2_available then [''cv2''] else [])
     @ [''_cv2_available'', ''SUPPORTED_EXTS'', ''flip_pillow'', ''flip_opencv_image_bytes'',
        ''save_pillow_with_exif'', ''process_file'', ''is_image_file'',
        ''batch_process_folder'', ''parse_args'', ''main'']"

text \<open>
  \<open>flip_opencv_image_bytes\<close>. The function assigns none of the names \<open>cv2\<close> and \<open>np\<close>, so
  both are looked up among the module's globals when line 32 runs; \<open>np\<close> is evaluated
  before the file is read.
\<close>

definition flip_opencv_image_bytes ::
  "'px lib \<Rightarrow> bool \<Rightarrow> path \<Rightarrow> path \<Rightarrow> string \<Rightarrow> filesystem \<Rightarrow> exn option \<times> filesystem" where
  "flip_opencv_image_bytes L cv2_available img_path out_path mode fsys =
     (if \<not> cv2_available then
        (Some (RuntimeError ''OpenCV backend requested but opencv-python is not installed.''),
         fsys)
      else if ''cv2'' \<notin> set (module_globals cv2_available) then
        (Some (NameError (''name '' @ quoted ''cv2'' @ '' is not defined'')), fsys)
      else if ''np'' \<notin> set (module_globals cv2_available) then
        (Some (NameError (''name '' @ quoted ''np'' @ '' is not defined'')), fsys)
      else
        (case read_bytes fsys img_path of
           Inl e \<Rightarrow> (Some e, fsys)
         | Inr buf \<Rightarrow>
         (case cv2_imdecode L buf of
           Inl e \<Rightarrow> (Some e, fsys)
         | Inr None \<Rightarrow>
             (Some (RuntimeError (''Failed to read image via OpenCV: '' @ str_path img_path)),
              fsys)
         | Inr (Some img) \<Rightarrow>
         (case (if mode = ''horizontal'' then Inr (cv2_flip img 1)
                else if mode = ''vertical'' then Inr (cv2_flip img 0)
                else if mode = ''both'' then Inr (cv2_flip img (- 1))
                else Inl (ValueError ''Unknown mode. Choose from horizontal|vertical|both'')) of
           Inl e \<Rightarrow> (Some e, fsys)
         | Inr flipped \<Rightarrow>
         (let ext = lstrip_dot (str_lower (path_suffix out_path))
          in case cv2_imencode L (''.'' @ ext) flipped of
               Inl e \<Rightarrow> (Some e, fsys)
             | Inr (ok, enc) \<Rightarrow>
                 if \<not> ok then (Some (RuntimeError ''Failed to encode flipped image''), fsys)
                 else (case write_bytes fsys out_path enc of
                         Inl e \<Rightarrow> (Some e, fsys)
                       | Inr fsys' \<Rightarrow> (None, fsys')))))))"

text \<open>\<open>d.setdefault(k, v)\<close> on one key.\<close>

definition setdefault :: "'a option \<Rightarrow> 'a \<Rightarrow> 'a option" where
  "setdefault cur v = (case cur of None \<Rightarrow> Some v | Some x \<Rightarrow> Some x)"

text \<open>
  Lines 56 to 73 of \<open>save_pillow_with_exif\<close>: the keyword arguments built from the
  original image. With no original, \<open>original.info\<close> raises \<open>AttributeError\<close>, which the
  \<open>except\<close> clause swallows.
\<close>

definition build_save_kwargs :: "'px image option \<Rightarrow> save_kwargs" where
  "build_save_kwargs original =
     (let kw0 = \<lparr> kw_format = None, kw_quality = None, kw_subsampling = None,
                  kw_icc_profile = None, kw_exif = None \<rparr>;
          fmt = (case original of
                   None \<Rightarrow> None
                 | Some orig \<Rightarrow>
                     (case format orig of
                        None \<Rightarrow> None
                      | Some f \<Rightarrow> if f = [] then None else Some f));
          kw1 = (case fmt of None \<Rightarrow> kw0 | Some f \<Rightarrow> kw0\<lparr>kw_format := Some f\<rparr>);
          kw2 = (case fmt of
                   None \<Rightarrow> kw1
                 | Some f \<Rightarrow>
                     if str_upper f \<in> set [''JPEG'', ''JPG''] then
                       kw1\<lparr>kw_quality := setdefault (kw_quality kw1) 95,
                           kw_subsampling := setdefault (kw_subsampling kw1) 0\<rparr>
                     else kw1)
      in case original of
           None \<Rightarrow> kw2
         | Some orig \<Rightarrow>
             (let kw3 = (case info orig ''icc_profile'' of
                           None \<Rightarrow> kw2
                         | Some b \<Rightarrow> kw2\<lparr>kw_icc_profile := Some b\<rparr>)
              in case info orig ''exif'' of
                   None \<Rightarrow> kw3
                 | Some b \<Rightarrow> kw3\<lparr>kw_exif := Some b\<rparr>))"

text \<open>\<open>save_pillow_with_exif\<close>\<close>

definition save_pillow_with_exif ::
  "'px lib \<Rightarrow> 'px image \<Rightarrow> path \<Rightarrow> 'px image option \<Rightarrow> filesystem
     \<Rightarrow> exn option \<times> filesystem" where
  "save_pillow_with_exif L img out_path original fsys =
     (case mkdir_parents fsys (path_parent out_path) of
        Inl e \<Rightarrow> (Some e, fsys)
      | Inr fsys' \<Rightarrow> pil_save L img out_path (build_save_kwargs original) fsys')"

text \<open>
  The body of the \<open>try\<close> statement of \<open>process_file\<close>, lines 87 to 112: the exception it
  raises, if any, and the file system it leaves. OpenCV depends on NumPy, so the local
  import of line 91 succeeds wherever \<open>cv2\<close> is available.
\<close>

definition process_file_try ::
  "'px lib \<Rightarrow> bool \<Rightarrow> path \<Rightarrow> path \<Rightarrow> string \<Rightarrow> string \<Rightarrow> filesystem
     \<Rightarrow> exn option \<times> filesystem" where
  "process_file_try L cv2_available in_path out_path mode backend fsys =
     (if backend = ''opencv'' then
        (if \<not> cv2_available then
           (Some (RuntimeError
              ''opencv backend not available; install opencv-python or use pillow backend''),
            fsys)
         else
           (case read_bytes fsys in_path of
              Inl e \<Rightarrow> (Some e, fsys)
            | Inr buf \<Rightarrow>
            (case cv2_imdecode L buf of
              Inl e \<Rightarrow> (Some e, fsys)
            | Inr None \<Rightarrow> (Some (RuntimeError ''OpenCV failed to read image.''), fsys)
            | Inr (Some img) \<Rightarrow>
            (case (if mode = ''horizontal'' then Inr (cv2_flip img 1)
                   else if mode = ''vertical'' then Inr (cv2_flip img 0)
                   else if mode = ''both'' then Inr (cv2_flip img (- 1))
                   else Inl (ValueError ''Unknown flip mode'')) of
              Inl e \<Rightarrow> (Some e, fsys)
            | Inr flipped \<Rightarrow>
            (case mkdir_parents fsys (path_parent out_path) of
              Inl e \<Rightarrow> (Some e, fsys)
            | Inr fsys1 \<Rightarrow>
            (case cv2_imencode L (path_suffix out_path) flipped of
              Inl e \<Rightarrow> (Some e, fsys1)
            | Inr (ok, enc) \<Rightarrow>
                if \<not> ok then
                  (Some (RuntimeError ''OpenCV failed to encode output image''), fsys1)
                else (case write_bytes fsys1 out_path enc of
                        Inl e \<Rightarrow> (Some e, fsys1)
                      | Inr fsys2 \<Rightarrow> (None, fsys2))))))))
      else
        (case Image_open L fsys in_path of
           Inl e \<Rightarrow> (Some e, fsys)
         | Inr img \<Rightarrow>
             (case flip_pillow img mode of
                Inl e \<Rightarrow> (Some e, fsys)
              | Inr flipped \<Rightarrow> save_pillow_with_exif L flipped out_path (Some img) fsys)))"

text \<open>\<open>process_file\<close>\<close>

definition process_file ::
  "'px lib \<Rightarrow> bool \<Rightarrow> path \<Rightarrow> path \<Rightarrow> string \<Rightarrow> bool \<Rightarrow> string \<Rightarrow> world \<Rightarrow> bool \<times> world" where
  "process_file L cv2_available in_path out_path mode overwrite backend w =
     (if \<not> exists_path (files w) in_path then
        (False, print Stdout (''[!] Input file not found: '' @ str_path in_path) w)
      else if \<not> overwrite \<and> exists_path (files w) out_path then
        (False,
         print Stdout
           (''[!] Output file already exists (use --overwrite to replace): ''
              @ str_path out_path) w)
      else
        (case process_file_try L cv2_available in_path out_path mode backend (files w) of
           (None, fsys') \<Rightarrow>
             (True, print Stdout (''[+] Saved: '' @ str_path out_path) (w\<lparr>files := fsys'\<rparr>))
         | (Some e, fsys') \<Rightarrow>
             (False,
              print Stdout
                (''[!] Failed to process '' @ str_path in_path @ '': '' @ str_exn e)
                (w\<lparr>files := fsys'\<rparr>))))"

text \<open>\<open>is_image_file\<close>\<close>

definition is_image_file :: "filesystem \<Rightarrow> path \<Rightarrow> bool" where
  "is_image_file fsys p = (is_file fsys p \<and> str_lower (path_suffix p) \<in> SUPPORTED_EXTS)"

text \<open>The \<open>for\<close> loop of \<open>batch_process_folder\<close>; the result of each call is dropped.\<close>

fun batch_loop ::
  "'px lib \<Rightarrow> bool \<Rightarrow> path \<Rightarrow> string \<Rightarrow> bool \<Rightarrow> string \<Rightarrow> path list \<Rightarrow> world \<Rightarrow> world" where
  "batch_loop L cv2_available out_folder mode overwrite backend [] w = w"
| "batch_loop L cv2_available out_folder mode overwrite backend (p # ps) w =
     (let out_p = joinpath out_folder (path_name p)
      in batch_loop L cv2_available out_folder mode overwrite backend ps
           (snd (process_file L cv2_available p out_p mode overwrite backend w)))"

text \<open>
  \<open>batch_process_folder\<close> returns nothing; an exception of \<open>out_folder.mkdir\<close> leaves it.
\<close>

definition batch_process_folder ::
  "'px lib \<Rightarrow> bool \<Rightarrow> path \<Rightarrow> path \<Rightarrow> string \<Rightarrow> bool \<Rightarrow> string \<Rightarrow> world
     \<Rightarrow> exn option \<times> world" where
  "batch_process_folder L cv2_available in_folder out_folder mode overwrite backend w =
     (if \<not> exists_path (files w) in_folder \<or> \<not> is_dir (files w) in_folder then
        (None,
         print Stdout
           (''[!] Input folder not found or not a directory: '' @ str_path in_folder) w)
      else
        (case mkdir_parents (files w) out_folder of
           Inl e \<Rightarrow> (Some e, w)
         | Inr fsys1 \<Rightarrow>
             (let w1 = w\<lparr>files := fsys1\<rparr>;
                  fls = sorted_paths (filter (is_image_file fsys1) (iterdir fsys1 in_folder))
              in if fls = [] then
                   (None, print Stdout ''[!] No supported image files found in input folder.'' w1)
                 else
                   (None,
                    batch_loop L cv2_available out_folder mode overwrite backend fls w1))))"

text \<open>
  The namespace \<open>parse_args\<close> returns. \<open>argparse\<close> accepts a mode and a backend only
  from their choices, and requires one of \<open>--input\<close> and \<open>--input-folder\<close>.
\<close>

record args =
  arg_input :: "string option"
  arg_input_folder :: "string option"
  arg_output :: "string option"
  arg_output_folder :: "string option"
  arg_mode :: string
  arg_overwrite :: bool
  arg_backend :: string

definition mode_choices :: "string list" where
  "mode_choices = [''horizontal'', ''vertical'', ''both'']"

definition backend_choices :: "string list" where
  "backend_choices = [''pillow'', ''opencv'']"

definition parsed :: "args \<Rightarrow> bool" where
  "parsed a =
     (arg_mode a \<in> set mode_choices \<and> arg_backend a \<in> set backend_choices
      \<and> (arg_input a = None) \<noteq> (arg_input_folder a = None))"

text \<open>The truth value of an optional string: \<open>None\<close> and \<open>""\<close> are false.\<close>

definition truthy :: "string option \<Rightarrow> bool" where
  "truthy s = (case s of None \<Rightarrow> False | Some x \<Rightarrow> x \<noteq> [])"

text \<open>How \<open>main\<close> ends: it returns, calls \<open>sys.exit\<close>, or an exception leaves it.\<close>

datatype outcome = Returned | SysExit nat | Uncaught exn

definition fallback_warning :: string where
  "fallback_warning =
     ''[!] OpenCV backend selected but opencv-python not installed. Falling back to pillow.''"

text \<open>Lines 164 to 169 of \<open>main\<close>: the output path of single-file mode.\<close>

definition single_out_path :: "args \<Rightarrow> path \<Rightarrow> exn + path" where
  "single_out_path a in_path =
     (if truthy (arg_output a) then Inr (Path (the (arg_output a)))
      else
        (let suffix = path_suffix in_path;
             stem = path_stem in_path @ ''_flipped_'' @ arg_mode a
         in with_name in_path (stem @ suffix)))"

text \<open>\<open>main\<close>, after \<open>parse_args\<close>.\<close>

definition main :: "'px lib \<Rightarrow> bool \<Rightarrow> args \<Rightarrow> world \<Rightarrow> outcome \<times> world" where
  "main L cv2_available a w0 =
     (let backend0 = str_lower (arg_backend a);
          fallback = (backend0 = ''opencv'' \<and> \<not> cv2_available);
          w = (if fallback then print Stderr fallback_warning w0 else w0);
          backend = (if fallback then ''pillow'' else backend0)
      in if truthy (arg_input a) then
           (let in_path = Path (the (arg_input a))
            in if \<not> exists_path (files w) in_path then
                 (SysExit 2,
                  print Stderr (''[!] Input file does not exist: '' @ str_path in_path) w)
               else
                 (case single_out_path a in_path of
                    Inl e \<Rightarrow> (Uncaught e, w)
                  | Inr out_path \<Rightarrow>
                      (case process_file L cv2_available in_path out_path (arg_mode a)
                              (arg_overwrite a) backend w of
                         (success, w') \<Rightarrow>
                           if \<not> success then (SysExit 1, w') else (Returned, w'))))
         else
           (case arg_input_folder a of
              None \<Rightarrow>
                (Uncaught (TypeError ''expected str, bytes or os.PathLike object, not NoneType''),
                 w)
            | Some d \<Rightarrow>
                (let in_folder = Path d
                 in if \<not> truthy (arg_output_folder a) then
                      (SysExit 2,
                       print Stderr ''[!] --output-folder is required when using --input-folder'' w)
                    else
                      (let out_folder = Path (the (arg_output_folder a))
                       in case batch_process_folder L cv2_available in_folder out_folder
                                 (arg_mode a) (arg_overwrite a) backend w of
                            (None, w') \<Rightarrow> (Returned, w')
                          | (Some e, w') \<Rightarrow> (Uncaught e, w')))))"

section \<open>Example inputs\<close>

definition example_image :: "nat image" where
  "example_image =
     \<lparr> format = Some ''JPEG'',
       info = [''exif'' \<mapsto> ''Exif-block'', ''icc_profile'' \<mapsto> ''ICC-blob''],
       im = \<lparr> xsize = 3, ysize = 2, rows = [[1, 2, 3], [4, 5, 6]] \<rparr> \<rparr>"

text \<open>
  A library whose decoders accept the bytes \<open>IMG\<close> only and whose encoders write
  \<open>ENC\<close>, and a file system with an input folder, a single input and an output that
  exists already.
\<close>

definition example_lib :: "nat lib" where
  "example_lib =
     \<lparr> pil_decode =
         (\<lambda>b. if b = ''IMG'' then Inr example_image
              else Inl (LibraryError ''cannot identify image file'')),
       pil_save =
         (\<lambda>img p kw fsys.
            case write_bytes fsys p ''ENC'' of
              Inl e \<Rightarrow> (Some e, fsys)
            | Inr fsys' \<Rightarrow> (None, fsys')),
       cv2_imdecode = (\<lambda>b. if b = ''IMG'' then Inr (Some (im example_image)) else Inr None),
       cv2_imencode = (\<lambda>ext c. Inr (True, ''ENC'')) \<rparr>"

definition example_world :: world where
  "example_world =
     \<lparr> files =
         [(Path ''in'', Dir),
          (Path ''in/b.PNG'', File ''IMG''),
          (Path ''in/notes.txt'', File ''text''),
          (Path ''in/a.jpg'', File ''broken''),
          (Path ''in/sub'', Dir),
          (Path ''in/sub/c.png'', File ''IMG''),
          (Path ''photo.jpg'', File ''IMG''),
          (Path ''taken.jpg'', File ''old'')],
       console = [] \<rparr>"

text \<open>The arguments of \<open>--input photo.jpg --mode vertical\<close>.\<close>

definition example_args :: args where
  "example_args =
     \<lparr> arg_input = Some ''photo.jpg'', arg_input_folder = None, arg_output = None,
       arg_output_folder = None, arg_mode = ''vertical'', arg_overwrite = False,
       arg_backend = ''pillow'' \<rparr>"

text \<open>The arguments of \<open>--input photo.jpg --backend opencv\<close>.\<close>

definition example_opencv_args :: args where
  "example_opencv_args =
     \<lparr> arg_input = Some ''photo.jpg'', arg_input_folder = None, arg_output = None,
       arg_output_folder = None, arg_mode = ''horizontal'', arg_overwrite = False,
       arg_backend = ''opencv'' \<rparr>"

section \<open>Properties of the transforms\<close>

lemma new_core_cong:
  assumes "\<And>x y. x < w \<Longrightarrow> y < h \<Longrightarrow> f x y = g x y"
  shows "new_core w h f = new_core w h g"
  using assms by (simp add: new_core_def)

lemma pixel_new_core: "x < w \<Longrightarrow> y < h \<Longrightarrow> pixel (new_core w h f) x y = f x y"
  by (simp add: new_core_def pixel_def)

lemma size_new_core: "xsize (new_core w h f) = w" "ysize (new_core w h f) = h"
  by (simp_all add: new_core_def)

lemma wf_new_core: "wf_core (new_core w h f)"
  by (simp add: wf_core_def new_core_def list_all_iff)

text \<open>A well-formed pixel store is rebuilt from its own pixels.\<close>

lemma new_core_pixel:
  assumes wf: "wf_core c"
  shows "new_core (xsize c) (ysize c) (pixel c) = c"
proof -
  have len: "length (rows c) = ysize c" using wf by (simp add: wf_core_def)
  have row: "length (rows c ! y) = xsize c" if "y < ysize c" for y
    using wf that by (simp add: wf_core_def list_all_length)
  have "map (\<lambda>y. map (\<lambda>x. rows c ! y ! x) [0..<xsize c]) [0..<ysize c] = rows c"
  proof (rule nth_equalityI)
    show "length (map (\<lambda>y. map (\<lambda>x. rows c ! y ! x) [0..<xsize c]) [0..<ysize c])
            = length (rows c)"
      by (simp add: len)
  next
    fix i
    assume "i < length (map (\<lambda>y. map (\<lambda>x. rows c ! y ! x) [0..<xsize c]) [0..<ysize c])"
    then have i: "i < ysize c" by simp
    have "map (\<lambda>x. rows c ! i ! x) [0..<xsize c] = rows c ! i"
      using row [OF i] by (metis map_nth)
    with i show "map (\<lambda>y. map (\<lambda>x. rows c ! y ! x) [0..<xsize c]) [0..<ysize c] ! i
                   = rows c ! i"
      by simp
  qed
  then show ?thesis by (simp add: new_core_def pixel_def)
qed

lemma size_flip:
  "xsize (flip_left_right c) = xsize c" "ysize (flip_left_right c) = ysize c"
  "xsize (flip_top_bottom c) = xsize c" "ysize (flip_top_bottom c) = ysize c"
  "xsize (rotate_180 c) = xsize c" "ysize (rotate_180 c) = ysize c"
  by (simp_all add: flip_left_right_def flip_top_bottom_def rotate_180_def size_new_core)

lemma pixel_flip_left_right:
  "x < xsize c \<Longrightarrow> y < ysize c \<Longrightarrow>
     pixel (flip_left_right c) x y = pixel c (xsize c - 1 - x) y"
  by (simp add: flip_left_right_def pixel_new_core)

lemma pixel_flip_top_bottom:
  "x < xsize c \<Longrightarrow> y < ysize c \<Longrightarrow>
     pixel (flip_top_bottom c) x y = pixel c x (ysize c - 1 - y)"
  by (simp add: flip_top_bottom_def pixel_new_core)

lemma pixel_rotate_180:
  "x < xsize c \<Longrightarrow> y < ysize c \<Longrightarrow>
     pixel (rotate_180 c) x y = pixel c (xsize c - 1 - x) (ysize c - 1 - y)"
  by (simp add: rotate_180_def pixel_new_core)

lemma mirror_lt: "x < (n::nat) \<Longrightarrow> n - 1 - x < n"
  by arith

lemma mirror_mirror: "x < (n::nat) \<Longrightarrow> n - 1 - (n - 1 - x) = x"
  by arith

lemma flip_left_right_twice:
  assumes "wf_core c"
  shows "flip_left_right (flip_left_right c) = c"
proof -
  have "flip_left_right (flip_left_right c) =
        new_core (xsize c) (ysize c) (\<lambda>x y. pixel (flip_left_right c) (xsize c - 1 - x) y)"
    by (subst flip_left_right_def) (simp add: size_flip)
  also have "\<dots> = new_core (xsize c) (ysize c) (pixel c)"
    by (rule new_core_cong) (simp add: pixel_flip_left_right mirror_lt mirror_mirror)
  finally show ?thesis using assms by (simp add: new_core_pixel)
qed

lemma flip_top_bottom_twice:
  assumes "wf_core c"
  shows "flip_top_bottom (flip_top_bottom c) = c"
proof -
  have "flip_top_bottom (flip_top_bottom c) =
        new_core (xsize c) (ysize c) (\<lambda>x y. pixel (flip_top_bottom c) x (ysize c - 1 - y))"
    by (subst flip_top_bottom_def) (simp add: size_flip)
  also have "\<dots> = new_core (xsize c) (ysize c) (pixel c)"
    by (rule new_core_cong) (simp add: pixel_flip_top_bottom mirror_lt mirror_mirror)
  finally show ?thesis using assms by (simp add: new_core_pixel)
qed

lemma rotate_180_twice:
  assumes "wf_core c"
  shows "rotate_180 (rotate_180 c) = c"
proof -
  have "rotate_180 (rotate_180 c) =
        new_core (xsize c) (ysize c)
          (\<lambda>x y. pixel (rotate_180 c) (xsize c - 1 - x) (ysize c - 1 - y))"
    by (subst rotate_180_def) (simp add: size_flip)
  also have "\<dots> = new_core (xsize c) (ysize c) (pixel c)"
    by (rule new_core_cong) (simp add: pixel_rotate_180 mirror_lt mirror_mirror)
  finally show ?thesis using assms by (simp add: new_core_pixel)
qed

text \<open>The two flips in either order are the rotation, on any pixel store.\<close>

lemma flip_lr_then_tb: "flip_top_bottom (flip_left_right c) = rotate_180 c"
proof -
  have "flip_top_bottom (flip_left_right c) =
        new_core (xsize c) (ysize c) (\<lambda>x y. pixel (flip_left_right c) x (ysize c - 1 - y))"
    by (subst flip_top_bottom_def) (simp add: size_flip)
  also have "\<dots> = rotate_180 c"
    unfolding rotate_180_def
    by (rule new_core_cong) (simp add: pixel_flip_left_right mirror_lt)
  finally show ?thesis .
qed

lemma flip_tb_then_lr: "flip_left_right (flip_top_bottom c) = rotate_180 c"
proof -
  have "flip_left_right (flip_top_bottom c) =
        new_core (xsize c) (ysize c) (\<lambda>x y. pixel (flip_top_bottom c) (xsize c - 1 - x) y)"
    by (subst flip_left_right_def) (simp add: size_flip)
  also have "\<dots> = rotate_180 c"
    unfolding rotate_180_def
    by (rule new_core_cong) (simp add: pixel_flip_top_bottom mirror_lt)
  finally show ?thesis .
qed

lemma str_lower_modes:
  "str_lower ''horizontal'' = ''horizontal''"
  "str_lower ''vertical'' = ''vertical''"
  "str_lower ''both'' = ''both''"
  by (simp_all add: str_lower_def lower_char_def upper_letters_def lower_letters_def)

lemma flip_pillow_modes:
  "flip_pillow img ''horizontal'' = Inr (transpose_image img FLIP_LEFT_RIGHT)"
  "flip_pillow img ''vertical'' = Inr (transpose_image img FLIP_TOP_BOTTOM)"
  "flip_pillow img ''both'' = Inr (transpose_image img ROTATE_180)"
  by (simp_all add: flip_pillow_def str_lower_modes)

lemma wf_example_image: "wf_core (im example_image)"
  by (simp add: example_image_def wf_core_def)

section \<open>The claims\<close>

text \<open>
  C3. Flipping twice with the same mode restores the pixel arrangement: for a decoded
  image (its pixel store has the size it declares) and a mode that lowers to
  \<open>horizontal\<close>, \<open>vertical\<close> or \<open>both\<close>, \<open>flip_pillow\<close> returns an image both times, and the
  second result has the pixel store and the \<open>info\<close> of the original.
\<close>

theorem flip_pillow_involution:
  assumes wf: "wf_core (im img)"
    and mode: "str_lower mode \<in> {''horizontal'', ''vertical'', ''both''}"
  shows "\<exists>once twice. flip_pillow img mode = Inr once \<and> flip_pillow once mode = Inr twice
           \<and> im twice = im img \<and> info twice = info img"
proof -
  consider (h) "str_lower mode = ''horizontal''" | (v) "str_lower mode = ''vertical''"
    | (b) "str_lower mode = ''both''"
    using mode by auto
  then show ?thesis
  proof cases
    case h
    then show ?thesis
      using wf by (simp add: flip_pillow_def flip_left_right_twice)
  next
    case v
    then show ?thesis
      using wf by (simp add: flip_pillow_def flip_top_bottom_twice)
  next
    case b
    then show ?thesis
      using wf by (simp add: flip_pillow_def rotate_180_twice)
  qed
qed

theorem flip_pillow_involution_witness:
  "wf_core (im example_image)
   \<and> str_lower ''Vertical'' \<in> {''horizontal'', ''vertical'', ''both''}
   \<and> (\<exists>once twice. flip_pillow example_image ''Vertical'' = Inr once
         \<and> rows (im once) = [[4, 5, 6], [1, 2, 3]]
         \<and> flip_pillow once ''Vertical'' = Inr twice
         \<and> im twice = im example_image \<and> info twice = info example_image)"
proof -
  have m: "str_lower ''Vertical'' \<in> {''horizontal'', ''vertical'', ''both''}"
    by (simp add: str_lower_def lower_char_def upper_letters_def lower_letters_def)
  have r: "rows (flip_top_bottom (im example_image)) = [[4, 5, 6], [1, 2, 3]]"
    by code_simp
  have l: "str_lower ''Vertical'' = ''vertical''"
    by (simp add: str_lower_def lower_char_def upper_letters_def lower_letters_def)
  show ?thesis
    using flip_pillow_involution [OF wf_example_image m] wf_example_image m r
    by (auto simp: flip_pillow_def l)
qed


text \<open>
  C4. Mode \<open>both\<close> is the horizontal flip followed by the vertical one, and the
  vertical flip followed by the horizontal one, as whole image handles; and it is the
  rotation by 180 degrees: the result has the size of the input, and its pixel at
  \<open>(x, y)\<close> is the input's pixel at \<open>(xsize - 1 - x, ysize - 1 - y)\<close>.
\<close>

theorem flip_pillow_both_is_two_flips:
  "flip_pillow img ''both'' =
     (case flip_pillow img ''horizontal'' of
        Inl e \<Rightarrow> Inl e | Inr h \<Rightarrow> flip_pillow h ''vertical'')
   \<and> flip_pillow img ''both'' =
     (case flip_pillow img ''vertical'' of
        Inl e \<Rightarrow> Inl e | Inr v \<Rightarrow> flip_pillow v ''horizontal'')
   \<and> (\<exists>r. flip_pillow img ''both'' = Inr r
          \<and> xsize (im r) = xsize (im img) \<and> ysize (im r) = ysize (im img)
          \<and> (\<forall>x y. x < xsize (im img) \<and> y < ysize (im img) \<longrightarrow>
                pixel (im r) x y
                  = pixel (im img) (xsize (im img) - 1 - x) (ysize (im img) - 1 - y)))"
proof (intro conjI)
  show "flip_pillow img ''both'' =
     (case flip_pillow img ''horizontal'' of
        Inl e \<Rightarrow> Inl e | Inr h \<Rightarrow> flip_pillow h ''vertical'')"
    by (simp add: flip_pillow_modes flip_lr_then_tb)
  show "flip_pillow img ''both'' =
     (case flip_pillow img ''vertical'' of
        Inl e \<Rightarrow> Inl e | Inr v \<Rightarrow> flip_pillow v ''horizontal'')"
    by (simp add: flip_pillow_modes flip_tb_then_lr)
  show "\<exists>r. flip_pillow img ''both'' = Inr r
          \<and> xsize (im r) = xsize (im img) \<and> ysize (im r) = ysize (im img)
          \<and> (\<forall>x y. x < xsize (im img) \<and> y < ysize (im img) \<longrightarrow>
                pixel (im r) x y
                  = pixel (im img) (xsize (im img) - 1 - x) (ysize (im img) - 1 - y))"
    by (simp add: flip_pillow_modes size_flip pixel_rotate_180)
qed

theorem flip_pillow_both_is_two_flips_witness:
  "flip_pillow example_image ''both'' =
     Inr \<lparr> format = None, info = info example_image,
           im = \<lparr> xsize = 3, ysize = 2, rows = [[6, 5, 4], [3, 2, 1]] \<rparr> \<rparr>
   \<and> flip_pillow example_image ''both'' =
     (case flip_pillow example_image ''horizontal'' of
        Inl e \<Rightarrow> Inl e | Inr h \<Rightarrow> flip_pillow h ''vertical'')
   \<and> flip_pillow example_image ''both'' =
     (case flip_pillow example_image ''vertical'' of
        Inl e \<Rightarrow> Inl e | Inr v \<Rightarrow> flip_pillow v ''horizontal'')"
proof -
  have r: "rotate_180 (im example_image) = \<lparr> xsize = 3, ysize = 2, rows = [[6, 5, 4], [3, 2, 1]] \<rparr>"
    by code_simp
  have b: "flip_pillow example_image ''both'' =
     Inr \<lparr> format = None, info = info example_image,
           im = \<lparr> xsize = 3, ysize = 2, rows = [[6, 5, 4], [3, 2, 1]] \<rparr> \<rparr>"
    by (simp only: flip_pillow_modes transpose_image.simps r)
  from flip_pillow_both_is_two_flips [of example_image] b show ?thesis
    by blast
qed

text \<open>
  C7, as the claim states it, fails: \<open>flip_pillow\<close> lowers the mode before it compares
  it, so \<open>HORIZONTAL\<close>, which is none of the three recognised strings, is flipped.
\<close>

theorem flip_pillow_upper_case_counterexample:
  "''HORIZONTAL'' \<notin> {''horizontal'', ''vertical'', ''both''}
   \<and> flip_pillow example_image ''HORIZONTAL''
       = Inr (transpose_image example_image FLIP_LEFT_RIGHT)"
  by (simp add: flip_pillow_def str_lower_def lower_char_def upper_letters_def
      lower_letters_def)

text \<open>
  C7, amended. For every image handle and every mode string whose lower-cased form is
  none of \<open>horizontal\<close>, \<open>vertical\<close> and \<open>both\<close>, \<open>flip_pillow\<close> raises the
  \<open>ValueError\<close> of an unknown mode and returns no image.
\<close>

theorem flip_pillow_unknown_mode:
  assumes "str_lower mode \<notin> {''horizontal'', ''vertical'', ''both''}"
  shows "flip_pillow img mode
           = Inl (ValueError ''Unknown mode. Choose from horizontal|vertical|both'')"
  using assms by (simp add: flip_pillow_def)

theorem flip_pillow_unknown_mode_witness:
  "str_lower ''Diagonal'' \<notin> {''horizontal'', ''vertical'', ''both''}
   \<and> flip_pillow example_image ''Diagonal''
       = Inl (ValueError ''Unknown mode. Choose from horizontal|vertical|both'')"
proof -
  have m: "str_lower ''Diagonal'' \<notin> {''horizontal'', ''vertical'', ''both''}"
    by (simp add: str_lower_def lower_char_def upper_letters_def lower_letters_def)
  show ?thesis
    using flip_pillow_unknown_mode [OF m, of example_image] m by simp
qed



text \<open>
  C2. Past the two existence checks, whatever exception the body of the \<open>try\<close>
  statement raises (decoding, flipping, creating the folder, encoding, writing),
  \<open>process_file\<close> returns false and prints the line
  \<open>[!] Failed to process <input>: <reason>\<close>; it has no other way to end than
  returning a boolean.
\<close>

theorem process_file_catches:
  assumes "exists_path (files w) in_path"
    and "overwrite \<or> \<not> exists_path (files w) out_path"
    and "process_file_try L cv2_available in_path out_path mode backend (files w)
           = (Some e, fsys')"
  shows "process_file L cv2_available in_path out_path mode overwrite backend w
           = (False,
              print Stdout (''[!] Failed to process '' @ str_path in_path @ '': '' @ str_exn e)
                (w\<lparr>files := fsys'\<rparr>))"
  using assms by (auto simp: process_file_def)

theorem process_file_catches_witness:
  "exists_path (files example_world) (Path ''in/a.jpg'')
   \<and> \<not> exists_path (files example_world) (Path ''out/a.jpg'')
   \<and> process_file_try example_lib True (Path ''in/a.jpg'') (Path ''out/a.jpg'')
        ''both'' ''pillow'' (files example_world)
       = (Some (LibraryError ''cannot identify image file''), files example_world)
   \<and> process_file example_lib True (Path ''in/a.jpg'') (Path ''out/a.jpg'') ''both''
        False ''pillow'' example_world
       = (False,
          example_world
            \<lparr>console := [(Stdout,
               ''[!] Failed to process in/a.jpg: cannot identify image file'')]\<rparr>)"
proof -
  have e: "exists_path (files example_world) (Path ''in/a.jpg'')"
    by code_simp
  have n: "\<not> exists_path (files example_world) (Path ''out/a.jpg'')"
    by code_simp
  have t: "process_file_try example_lib True (Path ''in/a.jpg'') (Path ''out/a.jpg'')
        ''both'' ''pillow'' (files example_world)
       = (Some (LibraryError ''cannot identify image file''), files example_world)"
    by code_simp
  have s: "str_path (Path ''in/a.jpg'') = ''in/a.jpg''"
    by code_simp
  have c: "console example_world = []"
    by (simp add: example_world_def)
  from process_file_catches [OF e _ t, of False] n
  have "process_file example_lib True (Path ''in/a.jpg'') (Path ''out/a.jpg'') ''both''
        False ''pillow'' example_world
       = (False,
          print Stdout
            (''[!] Failed to process '' @ str_path (Path ''in/a.jpg'') @ '': ''
               @ str_exn (LibraryError ''cannot identify image file''))
            (example_world\<lparr>files := files example_world\<rparr>))"
    by simp
  then show ?thesis
    using e n t by (simp add: s c print_def)
qed

text \<open>
  Where the exceptions of the \<open>try\<close> body come from, on the Pillow path: the decoder,
  the flip and the save.
\<close>

lemma process_file_try_pillow_raises:
  assumes "backend \<noteq> ''opencv''"
  shows "Image_open L fsys in_path = Inl e \<Longrightarrow>
           process_file_try L cv2_available in_path out_path mode backend fsys = (Some e, fsys)"
    and "Image_open L fsys in_path = Inr img \<Longrightarrow> flip_pillow img mode = Inl e \<Longrightarrow>
           process_file_try L cv2_available in_path out_path mode backend fsys = (Some e, fsys)"
    and "Image_open L fsys in_path = Inr img \<Longrightarrow> flip_pillow img mode = Inr flipped \<Longrightarrow>
           process_file_try L cv2_available in_path out_path mode backend fsys
             = save_pillow_with_exif L flipped out_path (Some img) fsys"
  using assms by (simp_all add: process_file_try_def)

text \<open>
  C5. \<open>save_pillow_with_exif\<close> calls \<open>img.save\<close> with the ICC profile and the EXIF
  block of the original's \<open>info\<close>, each as it is there and left out when it is not
  there; and when the original's format upper-cased is \<open>JPEG\<close> or \<open>JPG\<close>, with that
  format, quality 95 and subsampling 0. Building the arguments raises nothing: the save
  fails only where creating the folder or \<open>img.save\<close> itself fails.
\<close>

theorem save_pillow_with_exif_kwargs:
  "kw_icc_profile (build_save_kwargs (Some original)) = info original ''icc_profile''
   \<and> kw_exif (build_save_kwargs (Some original)) = info original ''exif''
   \<and> (format original = Some fmt \<and> str_upper fmt \<in> {''JPEG'', ''JPG''} \<longrightarrow>
        build_save_kwargs (Some original)
          = \<lparr> kw_format = Some fmt, kw_quality = Some 95, kw_subsampling = Some 0,
              kw_icc_profile = info original ''icc_profile'',
              kw_exif = info original ''exif'' \<rparr>)
   \<and> save_pillow_with_exif L img out_path (Some original) fsys
       = (case mkdir_parents fsys (path_parent out_path) of
            Inl e \<Rightarrow> (Some e, fsys)
          | Inr fsys' \<Rightarrow> pil_save L img out_path (build_save_kwargs (Some original)) fsys')"
proof -
  have nonempty: "fmt \<noteq> []" if "str_upper fmt \<in> {''JPEG'', ''JPG''}"
    using that by (auto simp: str_upper_def)
  show ?thesis
    by (auto simp: build_save_kwargs_def save_pillow_with_exif_def setdefault_def Let_def
        nonempty split: option.splits)
qed

theorem save_pillow_with_exif_kwargs_witness:
  "format example_image = Some ''JPEG'' \<and> str_upper ''JPEG'' \<in> {''JPEG'', ''JPG''}
   \<and> build_save_kwargs (Some example_image)
       = \<lparr> kw_format = Some ''JPEG'', kw_quality = Some 95, kw_subsampling = Some 0,
           kw_icc_profile = Some ''ICC-blob'', kw_exif = Some ''Exif-block'' \<rparr>
   \<and> build_save_kwargs (Some (example_image\<lparr>format := Some ''PNG'', info := Map.empty\<rparr>))
       = \<lparr> kw_format = Some ''PNG'', kw_quality = None, kw_subsampling = None,
           kw_icc_profile = None, kw_exif = None \<rparr>"
proof -
  have f: "format example_image = Some ''JPEG''"
    by (simp add: example_image_def)
  have u: "str_upper ''JPEG'' \<in> {''JPEG'', ''JPG''}"
    by (simp add: str_upper_def upper_char_def upper_letters_def lower_letters_def)
  have i: "info example_image ''icc_profile'' = Some ''ICC-blob''"
          "info example_image ''exif'' = Some ''Exif-block''"
    by (simp_all add: example_image_def)
  have p: "build_save_kwargs (Some (example_image\<lparr>format := Some ''PNG'', info := Map.empty\<rparr>))
       = \<lparr> kw_format = Some ''PNG'', kw_quality = None, kw_subsampling = None,
           kw_icc_profile = None, kw_exif = None \<rparr>"
    by (simp add: build_save_kwargs_def str_upper_def upper_char_def upper_letters_def
        lower_letters_def)
  from save_pillow_with_exif_kwargs
      [of example_image "''JPEG''" example_lib example_image "Path ''out.jpg''" "[]"]
  have "format example_image = Some ''JPEG'' \<and> str_upper ''JPEG'' \<in> {''JPEG'', ''JPG''} \<longrightarrow>
        build_save_kwargs (Some example_image)
          = \<lparr> kw_format = Some ''JPEG'', kw_quality = Some 95, kw_subsampling = Some 0,
              kw_icc_profile = info example_image ''icc_profile'',
              kw_exif = info example_image ''exif'' \<rparr>"
    by blast
  with f u have "build_save_kwargs (Some example_image)
          = \<lparr> kw_format = Some ''JPEG'', kw_quality = Some 95, kw_subsampling = Some 0,
              kw_icc_profile = info example_image ''icc_profile'',
              kw_exif = info example_image ''exif'' \<rparr>"
    by blast
  then have k: "build_save_kwargs (Some example_image)
       = \<lparr> kw_format = Some ''JPEG'', kw_quality = Some 95, kw_subsampling = Some 0,
           kw_icc_profile = Some ''ICC-blob'', kw_exif = Some ''Exif-block'' \<rparr>"
    by (simp only: i)
  from f u k p show ?thesis by blast
qed

text \<open>
  C10. Where OpenCV is available, \<open>flip_opencv_image_bytes\<close> raises the \<open>NameError\<close>
  of the name \<open>np\<close> before it reads the input; where it is not, the function raises its
  \<open>RuntimeError\<close>. So every call raises and leaves the file system as it was: no output
  file is written.
\<close>

theorem flip_opencv_image_bytes_raises:
  "flip_opencv_image_bytes L True img_path out_path mode fsys
     = (Some (NameError (''name '' @ quoted ''np'' @ '' is not defined'')), fsys)
   \<and> (\<exists>e. flip_opencv_image_bytes L cv2_available img_path out_path mode fsys
            = (Some e, fsys))"
  by (simp add: flip_opencv_image_bytes_def module_globals_def)

theorem flip_opencv_image_bytes_raises_witness:
  "flip_opencv_image_bytes example_lib True (Path ''photo.jpg'') (Path ''flipped.jpg'')
     ''horizontal'' (files example_world)
     = (Some (NameError (''name '' @ quoted ''np'' @ '' is not defined'')),
        files example_world)
   \<and> read_bytes (files example_world) (Path ''photo.jpg'') = Inr ''IMG''
   \<and> cv2_imdecode example_lib ''IMG'' = Inr (Some (im example_image))"
proof -
  have r: "read_bytes (files example_world) (Path ''photo.jpg'') = Inr ''IMG''"
    by code_simp
  have d: "cv2_imdecode example_lib ''IMG'' = Inr (Some (im example_image))"
    by (simp add: example_lib_def)
  from flip_opencv_image_bytes_raises [of example_lib "Path ''photo.jpg''"
      "Path ''flipped.jpg''" "''horizontal''" "files example_world"] r d
  show ?thesis by simp
qed

section \<open>Properties of paths\<close>

lemma split_sep_no_sep: "x \<in> set (split_sep s) \<Longrightarrow> CHR ''/'' \<notin> set x"
proof (induction s arbitrary: x)
  case Nil
  then show ?case by simp
next
  case (Cons c cs)
  show ?case
  proof (cases "c = CHR ''/''")
    case True
    with Cons show ?thesis by auto
  next
    case False
    with Cons show ?thesis
      by (cases "split_sep cs") auto
  qed
qed

lemma names_Path: "n \<in> set (names (Path s)) \<Longrightarrow> n \<noteq> [] \<and> n \<noteq> ''.'' \<and> CHR ''/'' \<notin> set n"
  by (auto simp: Path_def dest: split_sep_no_sep)

lemma path_name_in_names: "names p \<noteq> [] \<Longrightarrow> path_name p \<in> set (names p)"
  by (simp add: path_name_def)

lemma stem_suffix_name: "path_stem p @ path_suffix p = path_name p"
  by (simp add: path_stem_def path_suffix_def Let_def split: option.splits)

lemma set_stem_suffix:
  "set (path_stem p) \<subseteq> set (path_name p)" "set (path_suffix p) \<subseteq> set (path_name p)"
proof -
  have "set (path_stem p) \<union> set (path_suffix p) = set (path_name p)"
    by (metis set_append stem_suffix_name)
  then show "set (path_stem p) \<subseteq> set (path_name p)" "set (path_suffix p) \<subseteq> set (path_name p)"
    by auto
qed

lemma mode_choices_no_sep: "m \<in> set mode_choices \<Longrightarrow> CHR ''/'' \<notin> set m"
  by (auto simp: mode_choices_def)

lemma path_parent_with_last: "path_parent (p\<lparr>names := xs @ [n]\<rparr>) = p\<lparr>names := xs\<rparr>"
  by (simp add: path_parent_def)

text \<open>
  C9. In single-file mode with no \<open>--output\<close>, for an input path that has a final
  component and a mode among the choices of \<open>--mode\<close>, the output path is beside the
  input (the same parent) and its name is the input's stem, \<open>_flipped_\<close>, the mode and
  the input's suffix, where stem and suffix make up the input's name.
\<close>

theorem single_out_path_default:
  assumes mode: "arg_mode a \<in> set mode_choices"
    and no_output: "\<not> truthy (arg_output a)"
    and named: "names (Path s) \<noteq> []"
  shows "\<exists>out_path. single_out_path a (Path s) = Inr out_path
           \<and> path_parent out_path = path_parent (Path s)
           \<and> path_name out_path
               = path_stem (Path s) @ ''_flipped_'' @ arg_mode a @ path_suffix (Path s)
           \<and> path_stem (Path s) @ path_suffix (Path s) = path_name (Path s)"
proof -
  let ?p = "Path s"
  let ?n = "path_stem ?p @ ''_flipped_'' @ arg_mode a @ path_suffix ?p"
  have name: "path_name ?p \<noteq> []" "CHR ''/'' \<notin> set (path_name ?p)"
    using names_Path [OF path_name_in_names [OF named]] by simp_all
  have "CHR ''/'' \<notin> set (path_stem ?p)" "CHR ''/'' \<notin> set (path_suffix ?p)"
    using name(2) set_stem_suffix [of ?p] by auto
  then have sep: "CHR ''/'' \<notin> set ?n"
    using mode_choices_no_sep [OF mode] by simp
  have "9 \<le> length ?n" by simp
  then have ne: "?n \<noteq> []" "?n \<noteq> ''.''"
    by auto
  have "with_name ?p ?n = Inr (?p\<lparr>names := butlast (names ?p) @ [?n]\<rparr>)"
    using name(1) sep ne unfolding with_name_def by simp
  then have out: "single_out_path a ?p = Inr (?p\<lparr>names := butlast (names ?p) @ [?n]\<rparr>)"
    using no_output by (simp add: single_out_path_def)
  have "path_parent (?p\<lparr>names := butlast (names ?p) @ [?n]\<rparr>) = path_parent ?p"
    by (simp add: path_parent_def)
  moreover have "path_name (?p\<lparr>names := butlast (names ?p) @ [?n]\<rparr>) = ?n"
    by (simp add: path_name_def)
  ultimately show ?thesis
    using out stem_suffix_name [of ?p] by simp
qed

theorem single_out_path_default_witness:
  "arg_mode example_args \<in> set mode_choices \<and> \<not> truthy (arg_output example_args)
   \<and> names (Path ''photo.jpg'') \<noteq> []
   \<and> single_out_path example_args (Path ''photo.jpg'')
       = Inr (Path ''photo_flipped_vertical.jpg'')
   \<and> (\<exists>out_path. single_out_path example_args (Path ''photo.jpg'') = Inr out_path
         \<and> path_parent out_path = path_parent (Path ''photo.jpg'')
         \<and> path_name out_path
             = path_stem (Path ''photo.jpg'') @ ''_flipped_'' @ arg_mode example_args
                 @ path_suffix (Path ''photo.jpg'')
         \<and> path_stem (Path ''photo.jpg'') @ path_suffix (Path ''photo.jpg'')
             = path_name (Path ''photo.jpg''))"
proof -
  have m: "arg_mode example_args \<in> set mode_choices"
    by (simp add: example_args_def mode_choices_def)
  have o: "\<not> truthy (arg_output example_args)"
    by (simp add: example_args_def truthy_def)
  have n: "names (Path ''photo.jpg'') \<noteq> []"
    by code_simp
  have v: "single_out_path example_args (Path ''photo.jpg'')
             = Inr (Path ''photo_flipped_vertical.jpg'')"
    by code_simp
  from single_out_path_default [OF m o n] m o n v show ?thesis
    by blast
qed

section \<open>What a run prints\<close>

lemma console_print: "console (print st line w) = console w @ [(st, line)]"
  by (simp add: print_def)

lemma files_print: "files (print st line w) = files w"
  by (simp add: print_def)

text \<open>Every call of \<open>process_file\<close> prints one line, on standard output.\<close>

lemma process_file_console:
  "\<exists>line. console (snd (process_file L cv2_available in_path out_path mode overwrite backend w))
            = console w @ [(Stdout, line)]"
  by (cases "process_file_try L cv2_available in_path out_path mode backend (files w)")
     (auto simp: process_file_def console_print split: option.splits)

lemma batch_loop_console:
  "\<exists>ls. console (batch_loop L cv2_available out_folder mode overwrite backend ps w)
           = console w @ ls
         \<and> length ls = length ps \<and> list_all (\<lambda>l. fst l = Stdout) ls"
proof (induction ps arbitrary: w)
  case Nil
  then show ?case by simp
next
  case (Cons p ps)
  let ?w = "snd (process_file L cv2_available p (joinpath out_folder (path_name p)) mode
                   overwrite backend w)"
  obtain line where l: "console ?w = console w @ [(Stdout, line)]"
    using process_file_console by blast
  obtain ls where ls:
    "console (batch_loop L cv2_available out_folder mode overwrite backend ps ?w)
       = console ?w @ ls" "length ls = length ps" "list_all (\<lambda>l. fst l = Stdout) ls"
    using Cons.IH by blast
  have "console (batch_loop L cv2_available out_folder mode overwrite backend (p # ps) w)
          = console w @ ((Stdout, line) # ls)"
    using l ls(1) by simp
  moreover have "length ((Stdout, line) # ls) = length (p # ps)"
    using ls(2) by simp
  moreover have "list_all (\<lambda>l. fst l = Stdout) ((Stdout, line) # ls)"
    using ls(3) by simp
  ultimately show ?case by blast
qed

lemma batch_process_folder_console:
  "\<exists>ls. console (snd (batch_process_folder L cv2_available in_folder out_folder mode
                        overwrite backend w))
           = console w @ ls
         \<and> list_all (\<lambda>l. fst l = Stdout) ls"
proof (cases "\<not> exists_path (files w) in_folder \<or> \<not> is_dir (files w) in_folder")
  case True
  then show ?thesis
    by (auto simp: batch_process_folder_def console_print)
next
  case False
  show ?thesis
  proof (cases "mkdir_parents (files w) out_folder")
    case (Inl e)
    with False show ?thesis
      by (simp add: batch_process_folder_def)
  next
    case (Inr fsys1)
    let ?w1 = "w\<lparr>files := fsys1\<rparr>"
    let ?fls = "sorted_paths (filter (is_image_file fsys1) (iterdir fsys1 in_folder))"
    show ?thesis
    proof (cases "?fls = []")
      case True
      with False Inr show ?thesis
        by (simp add: batch_process_folder_def console_print)
    next
      case ne: False
      obtain ls where
        "console (batch_loop L cv2_available out_folder mode overwrite backend ?fls ?w1)
           = console ?w1 @ ls" "list_all (\<lambda>l. fst l = Stdout) ls"
        using batch_loop_console by blast
      with False Inr ne show ?thesis
        by (simp add: batch_process_folder_def)
    qed
  qed
qed

lemma stdout_no_warning:
  "list_all (\<lambda>l. fst l = Stdout) ls \<Longrightarrow> (Stderr, fallback_warning) \<notin> set ls"
  by (auto simp: list_all_iff)

text \<open>A run that does not fall back prints no fallback warning.\<close>

lemma main_no_fallback_console:
  assumes "\<not> (str_lower (arg_backend a) = ''opencv'' \<and> \<not> cv2_available)"
  shows "\<exists>ls. console (snd (main L cv2_available a w)) = console w @ ls
              \<and> (Stderr, fallback_warning) \<notin> set ls"
proof -
  let ?b = "str_lower (arg_backend a)"
  show ?thesis
  proof (cases "truthy (arg_input a)")
    case True
    let ?in = "Path (the (arg_input a))"
    show ?thesis
    proof (cases "exists_path (files w) ?in")
      case False
      with True assms show ?thesis
        by (auto simp: main_def Let_def console_print fallback_warning_def)
    next
      case ex: True
      show ?thesis
      proof (cases "single_out_path a ?in")
        case (Inl e)
        with True ex assms show ?thesis
          by (auto simp: main_def Let_def)
      next
        case (Inr out_path)
        obtain line where
          "console (snd (process_file L cv2_available ?in out_path (arg_mode a)
                           (arg_overwrite a) ?b w)) = console w @ [(Stdout, line)]"
          using process_file_console by blast
        with True ex Inr assms show ?thesis
          by (auto simp: main_def Let_def split: prod.splits)
      qed
    qed
  next
    case False
    show ?thesis
    proof (cases "arg_input_folder a")
      case None
      with False assms show ?thesis
        by (auto simp: main_def Let_def)
    next
      case (Some d)
      show ?thesis
      proof (cases "truthy (arg_output_folder a)")
        case nf: False
        with False Some assms show ?thesis
          by (auto simp: main_def Let_def console_print fallback_warning_def)
      next
        case tf: True
        obtain ls where
          "console (snd (batch_process_folder L cv2_available (Path d)
                           (Path (the (arg_output_folder a))) (arg_mode a) (arg_overwrite a)
                           ?b w)) = console w @ ls"
          "list_all (\<lambda>l. fst l = Stdout) ls"
          using batch_process_folder_console by blast
        with False Some tf assms stdout_no_warning [of ls] show ?thesis
          by (auto simp: main_def Let_def split: prod.splits option.splits)
      qed
    qed
  qed
qed

lemma str_lower_backends:
  "str_lower ''opencv'' = ''opencv''" "str_lower ''pillow'' = ''pillow''"
  by (simp_all add: str_lower_def lower_char_def upper_letters_def lower_letters_def)

lemma single_out_path_backend:
  "single_out_path (a\<lparr>arg_backend := b\<rparr>) p = single_out_path a p"
  by (simp add: single_out_path_def)

text \<open>
  C8. When \<open>--backend opencv\<close> is given and OpenCV is not available, the run is the run
  of \<open>--backend pillow\<close> started after the warning has been printed on standard error:
  the warning comes first, before any file is looked at, and the rest of the run prints
  it no more.
\<close>

theorem main_opencv_fallback:
  assumes "arg_backend a = ''opencv''"
  shows "main L False a w
           = main L False (a\<lparr>arg_backend := ''pillow''\<rparr>) (print Stderr fallback_warning w)
         \<and> files (print Stderr fallback_warning w) = files w
         \<and> (\<exists>rest. console (snd (main L False a w))
                     = console w @ [(Stderr, fallback_warning)] @ rest
                   \<and> (Stderr, fallback_warning) \<notin> set rest)"
proof -
  let ?a = "a\<lparr>arg_backend := ''pillow''\<rparr>"
  let ?w = "print Stderr fallback_warning w"
  have eq: "main L False a w = main L False ?a ?w"
    using assms
    by (simp add: main_def str_lower_backends single_out_path_backend files_print Let_def
        cong: sum.case_cong option.case_cong prod.case_cong if_cong)
  have "\<not> (str_lower (arg_backend ?a) = ''opencv'' \<and> \<not> False)"
    by (simp add: str_lower_backends)
  from main_no_fallback_console [OF this, of L ?w]
  obtain ls where "console (snd (main L False ?a ?w)) = console ?w @ ls"
    "(Stderr, fallback_warning) \<notin> set ls"
    by blast
  then have "console (snd (main L False a w)) = console w @ [(Stderr, fallback_warning)] @ ls
             \<and> (Stderr, fallback_warning) \<notin> set ls"
    using eq by (simp add: console_print)
  then show ?thesis
    using eq files_print by blast
qed

theorem main_opencv_fallback_witness:
  "arg_backend example_opencv_args = ''opencv''
   \<and> main example_lib False example_opencv_args example_world
       = main example_lib False (example_opencv_args\<lparr>arg_backend := ''pillow''\<rparr>)
           (print Stderr fallback_warning example_world)
   \<and> fst (main example_lib False example_opencv_args example_world) = Returned
   \<and> console (snd (main example_lib False example_opencv_args example_world))
       = [(Stderr, fallback_warning), (Stdout, ''[+] Saved: photo_flipped_horizontal.jpg'')]"
proof -
  have b: "arg_backend example_opencv_args = ''opencv''"
    by (simp add: example_opencv_args_def)
  have r: "fst (main example_lib False example_opencv_args example_world) = Returned"
    by code_simp
  have c: "console (snd (main example_lib False example_opencv_args example_world))
       = [(Stderr, fallback_warning), (Stdout, ''[+] Saved: photo_flipped_horizontal.jpg'')]"
    by code_simp
  from main_opencv_fallback [OF b, of example_lib example_world] b r c show ?thesis
    by blast
qed

section \<open>Properties of the file system\<close>









section \<open>Properties of the order of paths\<close>








end
